theory Spec2Isabelle
  imports Main "HOL-Library.Word"
begin

unbundle bit_operations_syntax

section \<open>The lights module of the Nubia Z11 (liblight/lights.c)\<close>

text \<open>
  The module drives one breathing LED for four logical lights (notifications, battery,
  buttons, attention) and the LCD backlight, by writing small texts to sysfs files.
  Its state is a handful of C globals; every entry point runs under one mutex, so the
  model is sequential: a record of the globals, passed through each function and
  returned updated.
\<close>

subsection \<open>Constants\<close>

definition BLINK_MODE_ON :: string where "BLINK_MODE_ON = ''6''"
definition BLINK_MODE_BREATH :: string where "BLINK_MODE_BREATH = ''3''"
definition BLINK_MODE_OFF :: string where "BLINK_MODE_OFF = ''2''"

definition CHANNEL_BUTTONS :: int where "CHANNEL_BUTTONS = 8"
definition CHANNEL_RED :: int where "CHANNEL_RED = 16"

definition BRIGHTNESS_BUTTONS :: int where "BRIGHTNESS_BUTTONS = 3"
definition BRIGHTNESS_RED :: int where "BRIGHTNESS_RED = 8"

definition BREATH_SOURCE_NOTIFICATION :: "32 word" where "BREATH_SOURCE_NOTIFICATION = 0x01"
definition BREATH_SOURCE_BATTERY :: "32 word" where "BREATH_SOURCE_BATTERY = 0x02"
definition BREATH_SOURCE_BUTTONS :: "32 word" where "BREATH_SOURCE_BUTTONS = 0x04"
definition BREATH_SOURCE_ATTENTION :: "32 word" where "BREATH_SOURCE_ATTENTION = 0x08"
definition BREATH_SOURCE_NONE :: "32 word" where "BREATH_SOURCE_NONE = 0xFF"

definition LCD_FILE :: string where
  "LCD_FILE = ''/sys/class/leds/lcd-backlight/brightness''"
definition BREATH_RED_LED :: string where
  "BREATH_RED_LED = ''/sys/class/leds/nubia_led/blink_mode''"
definition BREATH_RED_OUTN :: string where
  "BREATH_RED_OUTN = ''/sys/class/leds/nubia_led/outn''"
definition BREATH_RED_GRADE :: string where
  "BREATH_RED_GRADE = ''/sys/class/leds/nubia_led/grade_parameter''"

subsection \<open>Data\<close>

text \<open>
  \<open>struct light_state_t\<close> comes from the platform header \<open>hardware/lights.h\<close>:
  an \<open>unsigned int color\<close> (0xAARRGGBB) and four \<open>int\<close> fields that lights.c never reads.
\<close>

record light_state_t =
  color :: "32 word"
  flashMode :: int
  flashOnMS :: int
  flashOffMS :: int
  brightnessMode :: int

text \<open>
  One call of \<open>write_int\<close> or \<open>write_str\<close>, with the path and the value it was given
  (the text sent to the file is the value followed by a newline).
\<close>

datatype sink_call = WriteInt string int | WriteStr string string

text \<open>
  What the operating system answers to one open-write-close:
  \<^item> \<open>OpenFail e\<close>: \<open>open\<close> fails with errno \<open>e\<close>;
  \<^item> \<open>WriteFail e\<close>: \<open>write\<close> returns -1 with errno \<open>e\<close>, and \<open>close\<close> succeeds;
  \<^item> \<open>WriteCloseFail e c\<close>: \<open>write\<close> returns -1 with errno \<open>e\<close>, and \<open>close\<close> then
    fails with errno \<open>c\<close>. The primitives read \<open>errno\<close> after \<open>close\<close>, so \<open>c\<close> is the
    value they see;
  \<^item> \<open>WriteDone\<close>: \<open>write\<close> returns a byte count. The status is then 0 whatever
    \<open>close\<close> does.
\<close>

datatype io_outcome = OpenFail int | WriteFail int | WriteCloseFail int int | WriteDone

text \<open>
  The file system is a parameter: the answer to the n-th call of the process (counted
  from 0) on a path.
\<close>

type_synonym sysfs = "nat \<Rightarrow> string \<Rightarrow> io_outcome"

text \<open>
  The globals of lights.c, the two function-static \<open>already_warned\<close> flags, and what the
  process has done so far: the calls of the write primitives in order, the messages given
  to \<open>ALOGE\<close> in order. \<open>fault\<close> records that the local \<open>blink_mode\<close> was read while it
  was still uninitialised.
\<close>

record hal_state =
  active_states :: "32 word"
  last_state :: "32 word"
  g_attention :: light_state_t
  g_notification :: light_state_t
  g_battery :: light_state_t
  g_buttons :: light_state_t
  write_int_warned :: bool
  write_str_warned :: bool
  trace :: "sink_call list"
  logs :: "string list"
  fault :: bool

definition zero_light_state :: light_state_t where
  "zero_light_state =
     \<lparr>color = 0, flashMode = 0, flashOnMS = 0, flashOffMS = 0, brightnessMode = 0\<rparr>"

text \<open>The state at process start: statics are zero, except the two with initialisers.\<close>

definition hal_init :: hal_state where
  "hal_init =
     \<lparr>active_states = 0, last_state = BREATH_SOURCE_NONE,
      g_attention = zero_light_state, g_notification = zero_light_state,
      g_battery = zero_light_state, g_buttons = zero_light_state,
      write_int_warned = False, write_str_warned = False,
      trace = [], logs = [], fault = False\<rparr>"

subsection \<open>The write primitives\<close>

definition ALOGE :: "string \<Rightarrow> hal_state \<Rightarrow> hal_state" where
  "ALOGE msg s = s\<lparr>logs := logs s @ [msg]\<rparr>"

definition write_int :: "sysfs \<Rightarrow> string \<Rightarrow> int \<Rightarrow> hal_state \<Rightarrow> int \<times> hal_state" where
  "write_int fs path v s =
     (let s1 = s\<lparr>trace := trace s @ [WriteInt path v]\<rparr> in
      case fs (length (trace s)) path of
        WriteDone \<Rightarrow> (0, s1)
      | WriteFail errno \<Rightarrow> (- errno, s1)
      | WriteCloseFail errno_write errno \<Rightarrow> (- errno, s1)
      | OpenFail errno \<Rightarrow>
          (- errno,
           if \<not> write_int_warned s1
           then (ALOGE (''write_int failed to open '' @ path @ [CHR 0x0A]) s1)
                  \<lparr>write_int_warned := True\<rparr>
           else s1))"

definition write_str :: "sysfs \<Rightarrow> string \<Rightarrow> string \<Rightarrow> hal_state \<Rightarrow> int \<times> hal_state" where
  "write_str fs path v s =
     (let s1 = s\<lparr>trace := trace s @ [WriteStr path v]\<rparr> in
      case fs (length (trace s)) path of
        WriteDone \<Rightarrow> (0, s1)
      | WriteFail errno \<Rightarrow> (- errno, s1)
      | WriteCloseFail errno_write errno \<Rightarrow> (- errno, s1)
      | OpenFail errno \<Rightarrow>
          (- errno,
           if \<not> write_str_warned s1
           then (ALOGE (''write_str failed to open '' @ path @ [CHR 0x0A]) s1)
                  \<lparr>write_str_warned := True\<rparr>
           else s1))"

subsection \<open>Backlight\<close>

definition rgb_to_brightness :: "light_state_t \<Rightarrow> int" where
  "rgb_to_brightness state =
     (let c = color state AND 0x00ffffff in
      (uint (drop_bit 16 c AND 0xff) + uint (drop_bit 8 c AND 0xff) + uint (c AND 0xff)) div 3)"

definition set_light_backlight :: "sysfs \<Rightarrow> light_state_t \<Rightarrow> hal_state \<Rightarrow> int \<times> hal_state" where
  "set_light_backlight fs state s =
     (let brightness = rgb_to_brightness state;
          (err, s1) = write_int fs LCD_FILE brightness s
      in (err, s1))"

subsection \<open>The breathing light\<close>

text \<open>
  Lines 212 to 227 of \<open>set_breath_light_locked\<close>: the writes. \<open>blink_mode\<close> is
  \<open>None\<close> while the C local has not been assigned.
\<close>

definition breath_apply :: "sysfs \<Rightarrow> string option \<Rightarrow> hal_state \<Rightarrow> int \<times> hal_state" where
  "breath_apply fs blink_mode s =
     (if active_states s AND BREATH_SOURCE_BUTTONS = 0 then
        (let s1 = ALOGE '' Red led on'' s;
             s2 = snd (write_int fs BREATH_RED_OUTN CHANNEL_RED s1)
         in case blink_mode of
              Some m \<Rightarrow> (0, snd (write_str fs BREATH_RED_LED m s2))
            | None \<Rightarrow> (0, s2\<lparr>fault := True\<rparr>))
      else
        (let s1 = ALOGE '' Button led on'' s;
             s2 = snd (write_int fs BREATH_RED_OUTN CHANNEL_BUTTONS s1);
             s3 = snd (write_int fs BREATH_RED_GRADE BRIGHTNESS_BUTTONS s2);
             s4 = snd (write_str fs BREATH_RED_LED BLINK_MODE_ON s3);
             s5 = snd (write_int fs BREATH_RED_OUTN CHANNEL_RED s4);
             s6 = snd (write_int fs BREATH_RED_GRADE BRIGHTNESS_RED s5);
             s7 = snd (write_str fs BREATH_RED_LED BLINK_MODE_ON s6)
         in (0, s7)))"

text \<open>Lines 188 to 210: the priority chain, then the writes.\<close>

definition breath_select :: "sysfs \<Rightarrow> hal_state \<Rightarrow> int \<times> hal_state" where
  "breath_select fs s =
     (if active_states s AND BREATH_SOURCE_NOTIFICATION \<noteq> 0 then
        breath_apply fs (Some BLINK_MODE_BREATH) (s\<lparr>last_state := BREATH_SOURCE_NOTIFICATION\<rparr>)
      else if active_states s AND BREATH_SOURCE_BATTERY \<noteq> 0 then
        breath_apply fs (Some BLINK_MODE_BREATH) (s\<lparr>last_state := BREATH_SOURCE_BATTERY\<rparr>)
      else if active_states s AND BREATH_SOURCE_BUTTONS \<noteq> 0 then
        (if last_state s = BREATH_SOURCE_BUTTONS then (0, s)
         else breath_apply fs None (s\<lparr>last_state := BREATH_SOURCE_BUTTONS\<rparr>))
      else if active_states s AND BREATH_SOURCE_ATTENTION \<noteq> 0 then
        breath_apply fs (Some BLINK_MODE_BREATH) (s\<lparr>last_state := BREATH_SOURCE_ATTENTION\<rparr>)
      else
        (0, ALOGE '' Unknown state'' (s\<lparr>last_state := BREATH_SOURCE_NONE\<rparr>)))"

text \<open>
  The whole function. \<open>state\<close> is the light state the caller has just stored; only its
  colour is read, before anything is written.
\<close>

definition set_breath_light_locked ::
    "sysfs \<Rightarrow> 32 word \<Rightarrow> light_state_t \<Rightarrow> hal_state \<Rightarrow> int \<times> hal_state" where
  "set_breath_light_locked fs event_source state s =
     (let brightness = uint (drop_bit 16 (color state) AND 0xFF) in
      if brightness > 0 then
        breath_select fs (s\<lparr>active_states := active_states s OR event_source\<rparr>)
      else
        (let s1 = s\<lparr>active_states := active_states s AND NOT event_source\<rparr>;
             s2 = snd (write_int fs BREATH_RED_OUTN CHANNEL_BUTTONS s1);
             s3 = snd (write_str fs BREATH_RED_LED BLINK_MODE_OFF s2);
             s4 = snd (write_int fs BREATH_RED_OUTN CHANNEL_RED s3);
             s5 = snd (write_str fs BREATH_RED_LED BLINK_MODE_OFF s4)
         in if active_states s5 = 0 then (0, s5\<lparr>last_state := BREATH_SOURCE_NONE\<rparr>)
            else breath_select fs s5))"

subsection \<open>The entry points\<close>

definition set_light_buttons :: "sysfs \<Rightarrow> light_state_t \<Rightarrow> hal_state \<Rightarrow> int \<times> hal_state" where
  "set_light_buttons fs state s =
     (let s1 = s\<lparr>g_buttons := state\<rparr>;
          s2 = snd (set_breath_light_locked fs BREATH_SOURCE_BUTTONS (g_buttons s1) s1)
      in (0, s2))"

definition set_light_battery :: "sysfs \<Rightarrow> light_state_t \<Rightarrow> hal_state \<Rightarrow> int \<times> hal_state" where
  "set_light_battery fs state s =
     (let s1 = s\<lparr>g_battery := state\<rparr>;
          s2 = snd (set_breath_light_locked fs BREATH_SOURCE_BATTERY (g_battery s1) s1)
      in (0, s2))"

definition set_light_notifications :: "sysfs \<Rightarrow> light_state_t \<Rightarrow> hal_state \<Rightarrow> int \<times> hal_state" where
  "set_light_notifications fs state s =
     (let s1 = s\<lparr>g_notification := state\<rparr>;
          s2 = snd (set_breath_light_locked fs BREATH_SOURCE_NOTIFICATION (g_notification s1) s1)
      in (0, s2))"

definition set_light_attention :: "sysfs \<Rightarrow> light_state_t \<Rightarrow> hal_state \<Rightarrow> int \<times> hal_state" where
  "set_light_attention fs state s =
     (let s1 = s\<lparr>g_attention := state\<rparr>;
          s2 = snd (set_breath_light_locked fs BREATH_SOURCE_ATTENTION (g_attention s1) s1)
      in (0, s2))"

text \<open>
  \<open>open_lights\<close> gives each of the five light names its own \<open>set_light\<close>; any other name
  is refused with \<open>-EINVAL\<close> and gets no device. A device is therefore one of five.
\<close>

datatype light_id =
  LIGHT_ID_BACKLIGHT | LIGHT_ID_BUTTONS | LIGHT_ID_BATTERY
  | LIGHT_ID_NOTIFICATIONS | LIGHT_ID_ATTENTION

fun set_light :: "light_id \<Rightarrow> sysfs \<Rightarrow> light_state_t \<Rightarrow> hal_state \<Rightarrow> int \<times> hal_state" where
  "set_light LIGHT_ID_BACKLIGHT = set_light_backlight"
| "set_light LIGHT_ID_BUTTONS = set_light_buttons"
| "set_light LIGHT_ID_BATTERY = set_light_battery"
| "set_light LIGHT_ID_NOTIFICATIONS = set_light_notifications"
| "set_light LIGHT_ID_ATTENTION = set_light_attention"

text \<open>A sequence of \<open>set_light\<close> calls on the devices of the process, in order.\<close>

fun run :: "sysfs \<Rightarrow> hal_state \<Rightarrow> (light_id \<times> light_state_t) list \<Rightarrow> hal_state" where
  "run fs s [] = s"
| "run fs s ((i, st) # calls) = run fs (snd (set_light i fs st s)) calls"

subsection \<open>Observations\<close>

text \<open>The calls of the write primitives made between two states.\<close>

definition issued :: "hal_state \<Rightarrow> hal_state \<Rightarrow> sink_call list" where
  "issued s s' = drop (length (trace s)) (trace s')"

fun path_of :: "sink_call \<Rightarrow> string" where
  "path_of (WriteInt p v) = p"
| "path_of (WriteStr p v) = p"

definition open_fails :: "io_outcome \<Rightarrow> bool" where
  "open_fails r = (case r of OpenFail _ \<Rightarrow> True | _ \<Rightarrow> False)"

text \<open>The status a write primitive returns for an answer of the file system.\<close>

definition sink_result :: "io_outcome \<Rightarrow> int" where
  "sink_result r =
     (case r of
        WriteDone \<Rightarrow> 0
      | WriteFail errno \<Rightarrow> - errno
      | WriteCloseFail errno_write errno \<Rightarrow> - errno
      | OpenFail errno \<Rightarrow> - errno)"

text \<open>How many times the branch of line 206 has been taken: it alone logs this message.\<close>

definition unknown_count :: "hal_state \<Rightarrow> nat" where
  "unknown_count s = count_list (logs s) '' Unknown state''"

text \<open>The derived brightness of a breathing source: the red byte, bits 16 to 23 of the colour.\<close>

definition red_byte :: "light_state_t \<Rightarrow> int" where
  "red_byte st = uint (color st) div 65536 mod 256"

text \<open>The three write sequences of \<open>set_breath_light_locked\<close>.\<close>

definition off_writes :: "sink_call list" where
  "off_writes =
     [WriteInt BREATH_RED_OUTN CHANNEL_BUTTONS, WriteStr BREATH_RED_LED BLINK_MODE_OFF,
      WriteInt BREATH_RED_OUTN CHANNEL_RED, WriteStr BREATH_RED_LED BLINK_MODE_OFF]"

definition breath_writes :: "sink_call list" where
  "breath_writes =
     [WriteInt BREATH_RED_OUTN CHANNEL_RED, WriteStr BREATH_RED_LED BLINK_MODE_BREATH]"

definition buttons_on_writes :: "sink_call list" where
  "buttons_on_writes =
     [WriteInt BREATH_RED_OUTN CHANNEL_BUTTONS, WriteInt BREATH_RED_GRADE BRIGHTNESS_BUTTONS,
      WriteStr BREATH_RED_LED BLINK_MODE_ON,
      WriteInt BREATH_RED_OUTN CHANNEL_RED, WriteInt BREATH_RED_GRADE BRIGHTNESS_RED,
      WriteStr BREATH_RED_LED BLINK_MODE_ON]"

text \<open>
  What lines 188 to 227 write, as a function of the previous \<open>last_state\<close> and of
  \<open>active_states\<close> (proved below).
\<close>

definition select_writes :: "32 word \<Rightarrow> 32 word \<Rightarrow> sink_call list" where
  "select_writes l a =
     (if a AND BREATH_SOURCE_NOTIFICATION \<noteq> 0 \<or> a AND BREATH_SOURCE_BATTERY \<noteq> 0
      then (if a AND BREATH_SOURCE_BUTTONS = 0 then breath_writes else buttons_on_writes)
      else if a AND BREATH_SOURCE_BUTTONS \<noteq> 0
      then (if l = BREATH_SOURCE_BUTTONS then [] else buttons_on_writes)
      else if a AND BREATH_SOURCE_ATTENTION \<noteq> 0 then breath_writes
      else [])"

subsection \<open>The specification's reading, for comparison with the code\<close>

text \<open>
  The winner in the specification's words: the first source, in the fixed order
  Notification, Battery, Buttons, Attention, whose bit is set; none when no bit is set.
\<close>

definition priority_order :: "32 word list" where
  "priority_order =
     [BREATH_SOURCE_NOTIFICATION, BREATH_SOURCE_BATTERY, BREATH_SOURCE_BUTTONS,
      BREATH_SOURCE_ATTENTION]"

definition spec_winner :: "32 word \<Rightarrow> 32 word" where
  "spec_winner a =
     (case find (\<lambda>b. a AND b \<noteq> 0) priority_order of
        Some b \<Rightarrow> b | None \<Rightarrow> BREATH_SOURCE_NONE)"

text \<open>
  The status the specification promises for an update: the first nonzero status among the
  calls it makes, the n-th call of the process being the first of them; 0 when none fails.
\<close>

fun first_error :: "sysfs \<Rightarrow> nat \<Rightarrow> sink_call list \<Rightarrow> int" where
  "first_error fs n [] = 0"
| "first_error fs n (c # cs) =
     (if sink_result (fs n (path_of c)) \<noteq> 0 then sink_result (fs n (path_of c))
      else first_error fs (Suc n) cs)"

subsection \<open>Concrete inputs\<close>

definition plain_state :: "32 word \<Rightarrow> light_state_t" where
  "plain_state c =
     \<lparr>color = c, flashMode = 0, flashOnMS = 0, flashOffMS = 0, brightnessMode = 0\<rparr>"

text \<open>A file system where every write succeeds, and one where no file can be opened (ENOENT).\<close>

definition fs_ok :: sysfs where "fs_ok = (\<lambda>n p. WriteDone)"
definition fs_absent :: sysfs where "fs_absent = (\<lambda>n p. OpenFail 2)"

definition buttons_lit :: hal_state where
  "buttons_lit = snd (set_light_buttons fs_ok (plain_state 0xFF0000) hal_init)"

definition buttons_then_notification :: hal_state where
  "buttons_then_notification =
     snd (set_light_notifications fs_ok (plain_state 0x010000) buttons_lit)"

definition battery_lit :: hal_state where
  "battery_lit = snd (set_light_battery fs_ok (plain_state 0x010000) hal_init)"

subsection \<open>Invariants of the arbitration state\<close>

text \<open>Only the four source bits occur in an \<open>active_states\<close> value.\<close>

definition known_bits :: "32 word \<Rightarrow> bool" where
  "known_bits a = (a AND NOT 0x0F = 0)"

text \<open>Only known bits are set, and line 206 has never been reached.\<close>

definition quiet_known :: "hal_state \<Rightarrow> bool" where
  "quiet_known s = (known_bits (active_states s) \<and> unknown_count s = 0)"

text \<open>The bit of each source says whether the red byte of its stored state is positive.\<close>

definition bits_track :: "hal_state \<Rightarrow> bool" where
  "bits_track s =
     ((active_states s AND BREATH_SOURCE_NOTIFICATION \<noteq> 0) = (0 < red_byte (g_notification s))
      \<and> (active_states s AND BREATH_SOURCE_BATTERY \<noteq> 0) = (0 < red_byte (g_battery s))
      \<and> (active_states s AND BREATH_SOURCE_BUTTONS \<noteq> 0) = (0 < red_byte (g_buttons s))
      \<and> (active_states s AND BREATH_SOURCE_ATTENTION \<noteq> 0) = (0 < red_byte (g_attention s)))"

text \<open>\<open>last_state\<close> is the winner of the current \<open>active_states\<close>.\<close>

definition winner_recorded :: "hal_state \<Rightarrow> bool" where
  "winner_recorded s = (last_state s = spec_winner (active_states s))"

text \<open>
  \<open>last_state\<close> is none when no source is active, and it is always none or one of the
  four sources, with its bit set in \<open>active_states\<close>.
\<close>

definition applied_consistent :: "hal_state \<Rightarrow> bool" where
  "applied_consistent s =
     ((active_states s = 0 \<longrightarrow> last_state s = BREATH_SOURCE_NONE)
      \<and> (last_state s = BREATH_SOURCE_NONE
          \<or> (last_state s \<in> set priority_order \<and> active_states s AND last_state s \<noteq> 0)))"

text \<open>The state given by the most recent call on a device, if there was one.\<close>

fun last_update :: "light_id \<Rightarrow> (light_id \<times> light_state_t) list \<Rightarrow> light_state_t option" where
  "last_update i [] = None"
| "last_update i ((j, st) # calls) =
     (case last_update i calls of
        Some x \<Rightarrow> Some x
      | None \<Rightarrow> if j = i then Some st else None)"

subsection \<open>The log of open failures\<close>

text \<open>The fixed parts of the two messages, and the test that a logged line starts with one.\<close>

definition write_int_prefix :: string where
  "write_int_prefix = ''write_int failed to open ''"

definition write_str_prefix :: string where
  "write_str_prefix = ''write_str failed to open ''"

definition has_prefix :: "string \<Rightarrow> string \<Rightarrow> bool" where
  "has_prefix pre m = (take (length pre) m = pre)"

text \<open>Which primitive made a call.\<close>

fun is_write_int :: "sink_call \<Rightarrow> bool" where
  "is_write_int (WriteInt p v) = True"
| "is_write_int (WriteStr p v) = False"

fun is_write_str :: "sink_call \<Rightarrow> bool" where
  "is_write_str (WriteInt p v) = False"
| "is_write_str (WriteStr p v) = True"

text \<open>
  The path of the first call, among those of one primitive, whose \<open>open\<close> fails; the calls
  are numbered from n.
\<close>

fun first_open_failure ::
    "(sink_call \<Rightarrow> bool) \<Rightarrow> sysfs \<Rightarrow> nat \<Rightarrow> sink_call list \<Rightarrow> string option" where
  "first_open_failure k fs n [] = None"
| "first_open_failure k fs n (c # cs) =
     (if k c \<and> open_fails (fs n (path_of c)) then Some (path_of c)
      else first_open_failure k fs (Suc n) cs)"

text \<open>
  Each primitive has logged exactly its first failed open, if it had one, and its flag says
  whether it had one.
\<close>

definition warned_once :: "sysfs \<Rightarrow> hal_state \<Rightarrow> bool" where
  "warned_once fs s =
     (filter (has_prefix write_int_prefix) (logs s) =
        (case first_open_failure is_write_int fs 0 (trace s) of
           None \<Rightarrow> [] | Some p \<Rightarrow> [write_int_prefix @ p @ [CHR 0x0A]])
      \<and> write_int_warned s = (first_open_failure is_write_int fs 0 (trace s) \<noteq> None)
      \<and> filter (has_prefix write_str_prefix) (logs s) =
        (case first_open_failure is_write_str fs 0 (trace s) of
           None \<Rightarrow> [] | Some p \<Rightarrow> [write_str_prefix @ p @ [CHR 0x0A]])
      \<and> write_str_warned s = (first_open_failure is_write_str fs 0 (trace s) \<noteq> None))"

text \<open>No file can be opened; Buttons is lit, then the backlight is set.\<close>

definition buttons_backlight_absent :: hal_state where
  "buttons_backlight_absent =
     run fs_absent hal_init
       [(LIGHT_ID_BUTTONS, plain_state 0xFF0000), (LIGHT_ID_BACKLIGHT, plain_state 0x102031)]"

section \<open>Properties\<close>

lemmas lights_consts =
  BLINK_MODE_ON_def BLINK_MODE_BREATH_def BLINK_MODE_OFF_def
  CHANNEL_BUTTONS_def CHANNEL_RED_def BRIGHTNESS_BUTTONS_def BRIGHTNESS_RED_def
  BREATH_SOURCE_NOTIFICATION_def BREATH_SOURCE_BATTERY_def BREATH_SOURCE_BUTTONS_def
  BREATH_SOURCE_ATTENTION_def BREATH_SOURCE_NONE_def

subsection \<open>The write primitives\<close>

lemma ALOGE_fields [simp]:
  "active_states (ALOGE m s) = active_states s"
  "last_state (ALOGE m s) = last_state s"
  "g_attention (ALOGE m s) = g_attention s"
  "g_notification (ALOGE m s) = g_notification s"
  "g_battery (ALOGE m s) = g_battery s"
  "g_buttons (ALOGE m s) = g_buttons s"
  "write_int_warned (ALOGE m s) = write_int_warned s"
  "write_str_warned (ALOGE m s) = write_str_warned s"
  "trace (ALOGE m s) = trace s"
  "fault (ALOGE m s) = fault s"
  "logs (ALOGE m s) = logs s @ [m]"
  by (simp_all add: ALOGE_def)

lemma write_int_fields [simp]:
  "active_states (snd (write_int fs p v s)) = active_states s"
  "last_state (snd (write_int fs p v s)) = last_state s"
  "g_attention (snd (write_int fs p v s)) = g_attention s"
  "g_notification (snd (write_int fs p v s)) = g_notification s"
  "g_battery (snd (write_int fs p v s)) = g_battery s"
  "g_buttons (snd (write_int fs p v s)) = g_buttons s"
  "write_str_warned (snd (write_int fs p v s)) = write_str_warned s"
  "trace (snd (write_int fs p v s)) = trace s @ [WriteInt p v]"
  "fault (snd (write_int fs p v s)) = fault s"
  by (simp_all add: write_int_def Let_def split: io_outcome.split)

lemma write_str_fields [simp]:
  "active_states (snd (write_str fs p v s)) = active_states s"
  "last_state (snd (write_str fs p v s)) = last_state s"
  "g_attention (snd (write_str fs p v s)) = g_attention s"
  "g_notification (snd (write_str fs p v s)) = g_notification s"
  "g_battery (snd (write_str fs p v s)) = g_battery s"
  "g_buttons (snd (write_str fs p v s)) = g_buttons s"
  "write_int_warned (snd (write_str fs p v s)) = write_int_warned s"
  "trace (snd (write_str fs p v s)) = trace s @ [WriteStr p v]"
  "fault (snd (write_str fs p v s)) = fault s"
  by (simp_all add: write_str_def Let_def split: io_outcome.split)

lemma write_int_result: "fst (write_int fs p v s) = sink_result (fs (length (trace s)) p)"
  by (simp add: write_int_def sink_result_def Let_def split: io_outcome.split)

lemma write_str_result: "fst (write_str fs p v s) = sink_result (fs (length (trace s)) p)"
  by (simp add: write_str_def sink_result_def Let_def split: io_outcome.split)

lemma write_int_logs:
  "logs (snd (write_int fs p v s)) =
     logs s @ (if open_fails (fs (length (trace s)) p) \<and> \<not> write_int_warned s
               then [''write_int failed to open '' @ p @ [CHR 0x0A]] else [])"
  by (simp add: write_int_def open_fails_def Let_def split: io_outcome.split)

lemma write_int_warned_after:
  "write_int_warned (snd (write_int fs p v s)) =
     (write_int_warned s \<or> open_fails (fs (length (trace s)) p))"
  by (auto simp add: write_int_def open_fails_def Let_def split: io_outcome.split)

lemma write_str_logs:
  "logs (snd (write_str fs p v s)) =
     logs s @ (if open_fails (fs (length (trace s)) p) \<and> \<not> write_str_warned s
               then [''write_str failed to open '' @ p @ [CHR 0x0A]] else [])"
  by (simp add: write_str_def open_fails_def Let_def split: io_outcome.split)

lemma write_str_warned_after:
  "write_str_warned (snd (write_str fs p v s)) =
     (write_str_warned s \<or> open_fails (fs (length (trace s)) p))"
  by (auto simp add: write_str_def open_fails_def Let_def split: io_outcome.split)

lemma unknown_count_write [simp]:
  "unknown_count (snd (write_int fs p v s)) = unknown_count s"
  "unknown_count (snd (write_str fs p w s)) = unknown_count s"
  by (simp_all add: unknown_count_def write_int_logs write_str_logs)

lemma unknown_count_ALOGE [simp]:
  "unknown_count (ALOGE m s) = unknown_count s + (if m = '' Unknown state'' then 1 else 0)"
  by (simp add: unknown_count_def)

lemma unknown_count_updates [simp]:
  "unknown_count (s\<lparr>fault := b\<rparr>) = unknown_count s"
  "unknown_count (s\<lparr>last_state := l\<rparr>) = unknown_count s"
  "unknown_count (s\<lparr>active_states := a\<rparr>) = unknown_count s"
  "unknown_count (s\<lparr>g_attention := st\<rparr>) = unknown_count s"
  "unknown_count (s\<lparr>g_notification := st\<rparr>) = unknown_count s"
  "unknown_count (s\<lparr>g_battery := st\<rparr>) = unknown_count s"
  "unknown_count (s\<lparr>g_buttons := st\<rparr>) = unknown_count s"
  by (simp_all add: unknown_count_def)

lemma issued_append [simp]: "trace s' = trace s @ ws \<Longrightarrow> issued s s' = ws"
  by (simp add: issued_def)

lemma issued_g_update [simp]:
  "issued (s\<lparr>g_buttons := st\<rparr>) s' = issued s s'"
  "issued (s\<lparr>g_battery := st\<rparr>) s' = issued s s'"
  "issued (s\<lparr>g_notification := st\<rparr>) s' = issued s s'"
  "issued (s\<lparr>g_attention := st\<rparr>) s' = issued s s'"
  by (simp_all add: issued_def)

subsection \<open>The red byte\<close>

lemma red_byte_eq: "uint (drop_bit 16 (color st) AND 0xFF) = red_byte st"
proof -
  have m: "(0xFF::32 word) = mask 8" by (simp add: mask_eq_exp_minus_1)
  have "uint (drop_bit 16 (color st) AND mask 8) = take_bit 8 (drop_bit 16 (uint (color st)))"
    by (simp only: take_bit_eq_mask [symmetric] unsigned_take_bit_eq unsigned_drop_bit_eq)
      (simp only: unsigned_take_bit_eq [symmetric] take_bit_length_eq)
  also have "\<dots> = uint (color st) div 65536 mod 256"
    by (simp add: take_bit_eq_mod drop_bit_eq_div)
  finally show ?thesis by (simp only: m red_byte_def)
qed

subsection \<open>The priority chain and its writes\<close>

lemma breath_apply_fields [simp]:
  "fst (breath_apply fs bm s) = 0"
  "active_states (snd (breath_apply fs bm s)) = active_states s"
  "last_state (snd (breath_apply fs bm s)) = last_state s"
  "g_attention (snd (breath_apply fs bm s)) = g_attention s"
  "g_notification (snd (breath_apply fs bm s)) = g_notification s"
  "g_battery (snd (breath_apply fs bm s)) = g_battery s"
  "g_buttons (snd (breath_apply fs bm s)) = g_buttons s"
  "unknown_count (snd (breath_apply fs bm s)) = unknown_count s"
  by (simp_all add: breath_apply_def Let_def split: option.split)

lemma breath_apply_trace:
  "trace (snd (breath_apply fs bm s)) =
     trace s @
     (if active_states s AND BREATH_SOURCE_BUTTONS = 0
      then (case bm of Some m \<Rightarrow> [WriteInt BREATH_RED_OUTN CHANNEL_RED, WriteStr BREATH_RED_LED m]
            | None \<Rightarrow> [WriteInt BREATH_RED_OUTN CHANNEL_RED])
      else buttons_on_writes)"
  by (simp add: breath_apply_def buttons_on_writes_def Let_def split: option.split)

lemma breath_apply_fault:
  "fault (snd (breath_apply fs bm s)) =
     (fault s \<or> (active_states s AND BREATH_SOURCE_BUTTONS = 0 \<and> bm = None))"
  by (simp add: breath_apply_def Let_def split: option.split)

lemma breath_select_fields [simp]:
  "fst (breath_select fs s) = 0"
  "active_states (snd (breath_select fs s)) = active_states s"
  "g_attention (snd (breath_select fs s)) = g_attention s"
  "g_notification (snd (breath_select fs s)) = g_notification s"
  "g_battery (snd (breath_select fs s)) = g_battery s"
  "g_buttons (snd (breath_select fs s)) = g_buttons s"
  by (simp_all add: breath_select_def)

lemma breath_select_last_state:
  "last_state (snd (breath_select fs s)) = spec_winner (active_states s)"
  by (simp add: breath_select_def spec_winner_def priority_order_def)

text \<open>The uninitialised \<open>blink_mode\<close> of the Buttons branch is never read.\<close>

lemma breath_select_fault: "fault (snd (breath_select fs s)) = fault s"
  by (simp add: breath_select_def breath_apply_fault)

lemma breath_select_unknown:
  "unknown_count (snd (breath_select fs s)) =
     unknown_count s + (if spec_winner (active_states s) = BREATH_SOURCE_NONE then 1 else 0)"
  by (simp add: breath_select_def spec_winner_def priority_order_def lights_consts)

lemma breath_select_trace:
  "trace (snd (breath_select fs s)) = trace s @ select_writes (last_state s) (active_states s)"
  by (simp add: breath_select_def breath_apply_trace breath_writes_def select_writes_def)

lemma spec_winner_0 [simp]: "spec_winner 0 = BREATH_SOURCE_NONE"
  by (simp add: spec_winner_def priority_order_def)

lemma spec_winner_notification:
  "a AND BREATH_SOURCE_NOTIFICATION \<noteq> 0 \<Longrightarrow> spec_winner a = BREATH_SOURCE_NOTIFICATION"
  by (simp add: spec_winner_def priority_order_def)

lemma select_writes_0 [simp]: "select_writes l 0 = []"
  by (simp add: select_writes_def)

lemma select_writes_breathing:
  "spec_winner a \<in> {BREATH_SOURCE_NOTIFICATION, BREATH_SOURCE_BATTERY, BREATH_SOURCE_ATTENTION}
   \<Longrightarrow> select_writes l a =
       (if a AND BREATH_SOURCE_BUTTONS = 0 then breath_writes else buttons_on_writes)"
  by (simp add: spec_winner_def select_writes_def priority_order_def lights_consts
      split: if_splits)

lemma select_writes_buttons:
  "spec_winner a = BREATH_SOURCE_BUTTONS
   \<Longrightarrow> select_writes l a = (if l = BREATH_SOURCE_BUTTONS then [] else buttons_on_writes)"
  by (simp add: spec_winner_def select_writes_def priority_order_def lights_consts
      split: if_splits)

subsection \<open>One call of \<open>set_breath_light_locked\<close>\<close>

lemma sbll_fields [simp]:
  "fst (set_breath_light_locked fs src st s) = 0"
  "g_attention (snd (set_breath_light_locked fs src st s)) = g_attention s"
  "g_notification (snd (set_breath_light_locked fs src st s)) = g_notification s"
  "g_battery (snd (set_breath_light_locked fs src st s)) = g_battery s"
  "g_buttons (snd (set_breath_light_locked fs src st s)) = g_buttons s"
  "fault (snd (set_breath_light_locked fs src st s)) = fault s"
  by (simp_all add: set_breath_light_locked_def Let_def breath_select_fault)

lemma sbll_active:
  "active_states (snd (set_breath_light_locked fs src st s)) =
     (if 0 < red_byte st then active_states s OR src else active_states s AND NOT src)"
  by (simp add: set_breath_light_locked_def Let_def red_byte_eq)

lemma sbll_last_state:
  "last_state (snd (set_breath_light_locked fs src st s)) =
     spec_winner (active_states (snd (set_breath_light_locked fs src st s)))"
  by (simp add: set_breath_light_locked_def Let_def breath_select_last_state)

lemma sbll_trace:
  "trace (snd (set_breath_light_locked fs src st s)) =
     trace s @ (if 0 < red_byte st then [] else off_writes)
       @ select_writes (last_state s) (active_states (snd (set_breath_light_locked fs src st s)))"
  by (simp add: set_breath_light_locked_def Let_def red_byte_eq breath_select_trace
      off_writes_def)

lemma sbll_unknown:
  "unknown_count (snd (set_breath_light_locked fs src st s)) =
     unknown_count s +
     (if spec_winner (active_states (snd (set_breath_light_locked fs src st s)))
           = BREATH_SOURCE_NONE
         \<and> (0 < red_byte st
              \<or> active_states (snd (set_breath_light_locked fs src st s)) \<noteq> 0)
      then 1 else 0)"
  by (simp add: set_breath_light_locked_def Let_def red_byte_eq breath_select_unknown)

lemma set_light_snd:
  "snd (set_light_buttons fs st s) =
     snd (set_breath_light_locked fs BREATH_SOURCE_BUTTONS st (s\<lparr>g_buttons := st\<rparr>))"
  "snd (set_light_battery fs st s) =
     snd (set_breath_light_locked fs BREATH_SOURCE_BATTERY st (s\<lparr>g_battery := st\<rparr>))"
  "snd (set_light_notifications fs st s) =
     snd (set_breath_light_locked fs BREATH_SOURCE_NOTIFICATION st (s\<lparr>g_notification := st\<rparr>))"
  "snd (set_light_attention fs st s) =
     snd (set_breath_light_locked fs BREATH_SOURCE_ATTENTION st (s\<lparr>g_attention := st\<rparr>))"
  by (simp_all add: set_light_buttons_def set_light_battery_def set_light_notifications_def
      set_light_attention_def Let_def)

subsection \<open>The backlight\<close>

lemma set_light_backlight_fields [simp]:
  "active_states (snd (set_light_backlight fs st s)) = active_states s"
  "last_state (snd (set_light_backlight fs st s)) = last_state s"
  "g_attention (snd (set_light_backlight fs st s)) = g_attention s"
  "g_notification (snd (set_light_backlight fs st s)) = g_notification s"
  "g_battery (snd (set_light_backlight fs st s)) = g_battery s"
  "g_buttons (snd (set_light_backlight fs st s)) = g_buttons s"
  "fault (snd (set_light_backlight fs st s)) = fault s"
  "unknown_count (snd (set_light_backlight fs st s)) = unknown_count s"
  by (simp_all add: set_light_backlight_def Let_def split_beta)

lemma uint_byte: "uint (take_bit 8 (drop_bit k (w::32 word))) = uint w div 2 ^ k mod 256"
proof -
  have "uint (take_bit 8 (drop_bit k w)) = take_bit 8 (drop_bit k (uint w))"
    by (simp only: unsigned_take_bit_eq unsigned_drop_bit_eq)
      (simp only: unsigned_take_bit_eq [symmetric] take_bit_length_eq)
  also have "\<dots> = uint w div 2 ^ k mod 256"
    by (simp add: take_bit_eq_mod drop_bit_eq_div)
  finally show ?thesis .
qed

lemma rgb_to_brightness_eq:
  "rgb_to_brightness st =
     (uint (color st) div 65536 mod 256 + uint (color st) div 256 mod 256
        + uint (color st) mod 256) div 3"
proof -
  let ?c = "color st"
  have m8: "(0xff::32 word) = mask 8" by (simp add: mask_eq_exp_minus_1)
  have m24: "(0x00ffffff::32 word) = mask 24" by (simp add: mask_eq_exp_minus_1)
  have "drop_bit 16 (?c AND mask 24) AND mask 8 = take_bit 8 (drop_bit 16 ?c)"
    by (simp add: take_bit_eq_mask [symmetric] drop_bit_take_bit)
  then have r: "uint (drop_bit 16 (?c AND mask 24) AND mask 8) = uint ?c div 65536 mod 256"
    using uint_byte [of 16 ?c] by simp
  have "drop_bit 8 (?c AND mask 24) AND mask 8 = take_bit 8 (drop_bit 8 ?c)"
    by (simp add: take_bit_eq_mask [symmetric] drop_bit_take_bit)
  then have g: "uint (drop_bit 8 (?c AND mask 24) AND mask 8) = uint ?c div 256 mod 256"
    using uint_byte [of 8 ?c] by simp
  have "(?c AND mask 24) AND mask 8 = take_bit 8 (drop_bit 0 ?c)"
    by (simp add: take_bit_eq_mask [symmetric])
  then have b: "uint ((?c AND mask 24) AND mask 8) = uint ?c mod 256"
    using uint_byte [of 0 ?c] by simp
  show ?thesis
    by (simp only: rgb_to_brightness_def Let_def m8 m24 r g b)
qed

lemma byte_bounds: "0 \<le> (x::int) mod 256" "(x::int) mod 256 \<le> 255"
  using pos_mod_bound [of 256 x] by simp_all

lemma avg3_bound:
  "0 \<le> (a::int) \<Longrightarrow> a \<le> 255 \<Longrightarrow> 0 \<le> b \<Longrightarrow> b \<le> 255 \<Longrightarrow> 0 \<le> c \<Longrightarrow> c \<le> 255
   \<Longrightarrow> 0 \<le> (a + b + c) div 3 \<and> (a + b + c) div 3 \<le> 255"
  by linarith

subsection \<open>Sequences of calls\<close>

lemma and_bit:
  "((a::32 word) AND 1 \<noteq> 0) = bit a 0"
  "((a::32 word) AND 2 \<noteq> 0) = bit a 1"
  "((a::32 word) AND 4 \<noteq> 0) = bit a 2"
  "((a::32 word) AND 8 \<noteq> 0) = bit a 3"
  using and_exp_eq_0_iff_not_bit [of a 0] and_exp_eq_0_iff_not_bit [of a 1]
    and_exp_eq_0_iff_not_bit [of a 2] and_exp_eq_0_iff_not_bit [of a 3]
  by simp_all

lemma bits_track_init: "bits_track hal_init"
  by (simp add: bits_track_def hal_init_def zero_light_state_def red_byte_def)

lemma bits_track_step: "bits_track s \<Longrightarrow> bits_track (snd (set_light i fs st s))"
  by (cases i)
    (simp_all add: bits_track_def set_light_snd sbll_active lights_consts and_bit bit_simps)

lemma bits_track_run: "bits_track s \<Longrightarrow> bits_track (run fs s calls)"
  by (induction calls arbitrary: s) (auto simp add: bits_track_step)

lemma g_step:
  "g_notification (snd (set_light i fs st s)) =
     (if i = LIGHT_ID_NOTIFICATIONS then st else g_notification s)"
  "g_battery (snd (set_light i fs st s)) = (if i = LIGHT_ID_BATTERY then st else g_battery s)"
  "g_buttons (snd (set_light i fs st s)) = (if i = LIGHT_ID_BUTTONS then st else g_buttons s)"
  "g_attention (snd (set_light i fs st s)) =
     (if i = LIGHT_ID_ATTENTION then st else g_attention s)"
  by (cases i; simp add: set_light_snd)+

lemma g_run:
  "g_notification (run fs s calls) =
     (case last_update LIGHT_ID_NOTIFICATIONS calls of None \<Rightarrow> g_notification s | Some x \<Rightarrow> x)"
  "g_battery (run fs s calls) =
     (case last_update LIGHT_ID_BATTERY calls of None \<Rightarrow> g_battery s | Some x \<Rightarrow> x)"
  "g_buttons (run fs s calls) =
     (case last_update LIGHT_ID_BUTTONS calls of None \<Rightarrow> g_buttons s | Some x \<Rightarrow> x)"
  "g_attention (run fs s calls) =
     (case last_update LIGHT_ID_ATTENTION calls of None \<Rightarrow> g_attention s | Some x \<Rightarrow> x)"
  by (induction calls arbitrary: s; auto simp add: g_step split: option.split)+

text \<open>No sequence of calls reads \<open>blink_mode\<close> uninitialised.\<close>

lemma fault_step: "fault (snd (set_light i fs st s)) = fault s"
  by (cases i) (simp_all add: set_light_snd)

lemma fault_run_from: "fault (run fs s calls) = fault s"
proof (induction calls arbitrary: s)
  case Nil
  show ?case by simp
next
  case (Cons c calls)
  obtain i st where c: "c = (i, st)" by (cases c)
  have "fault (run fs s (c # calls)) = fault (run fs (snd (set_light i fs st s)) calls)"
    by (simp add: c)
  also have "\<dots> = fault (snd (set_light i fs st s))" by (rule Cons.IH)
  also have "\<dots> = fault s" by (rule fault_step)
  finally show ?case .
qed

lemma fault_run: "\<not> fault (run fs hal_init calls)"
  unfolding fault_run_from by (simp add: hal_init_def)

subsection \<open>Known bits\<close>

lemma known_nonzero:
  assumes "(a::32 word) \<noteq> 0" "known_bits a"
  shows "spec_winner a \<noteq> BREATH_SOURCE_NONE"
proof -
  have k: "a AND NOT 15 = 0" using assms(2) by (simp add: known_bits_def)
  have "(15::32 word) = 1 OR 2 OR 4 OR 8" by simp
  then have a15: "a AND 15 = (a AND 1) OR (a AND 2) OR (a AND 4) OR (a AND 8)"
    by (simp only: bit.conj_disj_distrib)
  have "a = (a AND 15) OR (a AND NOT 15)"
    by (simp add: bit.conj_disj_distrib [symmetric])
  with assms(1) k have "a AND 15 \<noteq> 0" by auto
  with a15 have "a AND 1 \<noteq> 0 \<or> a AND 2 \<noteq> 0 \<or> a AND 4 \<noteq> 0 \<or> a AND 8 \<noteq> 0"
    by auto
  then show ?thesis
    by (auto simp add: spec_winner_def priority_order_def lights_consts)
qed

lemma known_only_sbll:
  assumes "src \<in> {BREATH_SOURCE_NOTIFICATION, BREATH_SOURCE_BATTERY, BREATH_SOURCE_BUTTONS,
             BREATH_SOURCE_ATTENTION}"
    and "known_bits (active_states s)"
  shows "known_bits (active_states (snd (set_breath_light_locked fs src st s)))"
proof (cases "0 < red_byte st")
  case True
  have "src AND NOT 0x0F = 0" using assms(1) by (auto simp add: lights_consts)
  with assms(2) True show ?thesis
    by (simp add: known_bits_def sbll_active bit.conj_disj_distrib2)
next
  case False
  have "(active_states s AND NOT src) AND NOT 0x0F = (active_states s AND NOT 0x0F) AND NOT src"
    by (simp only: and.assoc and.commute)
  with assms(2) False show ?thesis
    by (simp add: known_bits_def sbll_active)
qed

lemma unknown_not_taken:
  assumes "src \<in> {BREATH_SOURCE_NOTIFICATION, BREATH_SOURCE_BATTERY, BREATH_SOURCE_BUTTONS,
             BREATH_SOURCE_ATTENTION}"
    and "known_bits (active_states s)"
  shows "unknown_count (snd (set_breath_light_locked fs src st s)) = unknown_count s"
proof -
  let ?a' = "active_states (snd (set_breath_light_locked fs src st s))"
  have k: "known_bits ?a'" using assms by (rule known_only_sbll)
  have s0: "src \<noteq> 0" using assms(1) by (auto simp add: lights_consts)
  have "0 < red_byte st \<Longrightarrow> ?a' \<noteq> 0"
    using s0 by (simp add: sbll_active or_eq_0_iff)
  then have "0 < red_byte st \<or> ?a' \<noteq> 0 \<Longrightarrow> spec_winner ?a' \<noteq> BREATH_SOURCE_NONE"
    using k known_nonzero by blast
  then show ?thesis
    by (auto simp add: sbll_unknown)
qed

lemma quiet_known_step: "quiet_known s \<Longrightarrow> quiet_known (snd (set_light i fs st s))"
  by (cases i)
    (simp_all add: quiet_known_def set_light_snd known_only_sbll unknown_not_taken)

lemma quiet_known_run: "quiet_known s \<Longrightarrow> quiet_known (run fs s calls)"
  by (induction calls arbitrary: s) (auto simp add: quiet_known_step)

lemma quiet_known_init: "quiet_known hal_init"
  by (simp add: quiet_known_def known_bits_def hal_init_def unknown_count_def)

subsection \<open>The recorded winner\<close>

lemma spec_winner_cases:
  "spec_winner a = BREATH_SOURCE_NONE
   \<or> (spec_winner a \<in> set priority_order \<and> a AND spec_winner a \<noteq> 0)"
  by (simp add: spec_winner_def priority_order_def)

lemma winner_recorded_consistent: "winner_recorded s \<Longrightarrow> applied_consistent s"
  using spec_winner_cases [of "active_states s"]
  by (auto simp add: winner_recorded_def applied_consistent_def)

lemma winner_recorded_step: "winner_recorded s \<Longrightarrow> winner_recorded (snd (set_light i fs st s))"
  by (cases i) (simp_all add: winner_recorded_def set_light_snd sbll_last_state [symmetric])

lemma winner_recorded_run: "winner_recorded s \<Longrightarrow> winner_recorded (run fs s calls)"
  by (induction calls arbitrary: s) (auto simp add: winner_recorded_step)

lemma winner_recorded_init: "winner_recorded hal_init"
  by (simp add: winner_recorded_def hal_init_def)

subsection \<open>Open failures over a run\<close>

lemma first_open_failure_snoc:
  "first_open_failure k fs n (cs @ [c]) =
     (case first_open_failure k fs n cs of
        Some p \<Rightarrow> Some p
      | None \<Rightarrow> if k c \<and> open_fails (fs (n + length cs) (path_of c))
                then Some (path_of c) else None)"
  by (induction cs arbitrary: n) (auto split: option.split)

lemma has_prefix_msgs [simp]:
  "has_prefix write_int_prefix (write_int_prefix @ x)"
  "has_prefix write_str_prefix (write_str_prefix @ x)"
  "\<not> has_prefix write_str_prefix (write_int_prefix @ x)"
  "\<not> has_prefix write_int_prefix (write_str_prefix @ x)"
  "\<not> has_prefix write_int_prefix '' Red led on''"
  "\<not> has_prefix write_str_prefix '' Red led on''"
  "\<not> has_prefix write_int_prefix '' Button led on''"
  "\<not> has_prefix write_str_prefix '' Button led on''"
  "\<not> has_prefix write_int_prefix '' Unknown state''"
  "\<not> has_prefix write_str_prefix '' Unknown state''"
  by (simp_all add: has_prefix_def write_int_prefix_def write_str_prefix_def)

lemma write_int_logs_prefix:
  "logs (snd (write_int fs p v s)) =
     logs s @ (if open_fails (fs (length (trace s)) p) \<and> \<not> write_int_warned s
               then [write_int_prefix @ p @ [CHR 0x0A]] else [])"
  by (simp add: write_int_logs write_int_prefix_def)

lemma write_str_logs_prefix:
  "logs (snd (write_str fs p v s)) =
     logs s @ (if open_fails (fs (length (trace s)) p) \<and> \<not> write_str_warned s
               then [write_str_prefix @ p @ [CHR 0x0A]] else [])"
  by (simp add: write_str_logs write_str_prefix_def)

lemma warned_once_write_int:
  "warned_once fs s \<Longrightarrow> warned_once fs (snd (write_int fs p v s))"
  by (auto simp add: warned_once_def write_int_logs_prefix write_int_warned_after
      first_open_failure_snoc split: option.splits)

lemma warned_once_write_str:
  "warned_once fs s \<Longrightarrow> warned_once fs (snd (write_str fs p v s))"
  by (auto simp add: warned_once_def write_str_logs_prefix write_str_warned_after
      first_open_failure_snoc split: option.splits)

lemma warned_once_ALOGE:
  "\<not> has_prefix write_int_prefix m \<Longrightarrow> \<not> has_prefix write_str_prefix m
   \<Longrightarrow> warned_once fs (ALOGE m s) = warned_once fs s"
  by (simp add: warned_once_def)

lemma warned_once_updates [simp]:
  "warned_once fs (s\<lparr>fault := b\<rparr>) = warned_once fs s"
  "warned_once fs (s\<lparr>last_state := l\<rparr>) = warned_once fs s"
  "warned_once fs (s\<lparr>active_states := a\<rparr>) = warned_once fs s"
  "warned_once fs (s\<lparr>g_attention := st\<rparr>) = warned_once fs s"
  "warned_once fs (s\<lparr>g_notification := st\<rparr>) = warned_once fs s"
  "warned_once fs (s\<lparr>g_battery := st\<rparr>) = warned_once fs s"
  "warned_once fs (s\<lparr>g_buttons := st\<rparr>) = warned_once fs s"
  by (simp_all add: warned_once_def)

lemma warned_once_breath_apply:
  "warned_once fs s \<Longrightarrow> warned_once fs (snd (breath_apply fs bm s))"
  by (simp add: breath_apply_def Let_def warned_once_write_int warned_once_write_str
      warned_once_ALOGE split: option.split)

lemma warned_once_breath_select:
  "warned_once fs s \<Longrightarrow> warned_once fs (snd (breath_select fs s))"
  by (simp add: breath_select_def warned_once_breath_apply warned_once_ALOGE)

lemma warned_once_sbll:
  "warned_once fs s \<Longrightarrow> warned_once fs (snd (set_breath_light_locked fs src st s))"
  by (simp add: set_breath_light_locked_def Let_def warned_once_breath_select
      warned_once_write_int warned_once_write_str)

lemma warned_once_step: "warned_once fs s \<Longrightarrow> warned_once fs (snd (set_light i fs st s))"
  by (cases i)
    (simp_all add: set_light_snd warned_once_sbll set_light_backlight_def Let_def split_beta
      warned_once_write_int)

lemma warned_once_run: "warned_once fs s \<Longrightarrow> warned_once fs (run fs s calls)"
  by (induction calls arbitrary: s) (auto simp add: warned_once_step)

lemma warned_once_init: "warned_once fs hal_init"
  by (simp add: warned_once_def hal_init_def)

section \<open>The claims\<close>

subsection \<open>C1: what is written when a breathing source wins\<close>

text \<open>
  C1, as stated, fails. After Buttons is lit with colour 0xFF0000 and Notification is then
  lit with colour 0x010000, Notification is recorded as the winner and the Buttons bit is
  still set, but the second call does not issue the two-write breathing sequence: line 212
  tests the Buttons bit, not the winner.
\<close>

theorem buttons_bit_overrides_breathing:
  "last_state buttons_then_notification = BREATH_SOURCE_NOTIFICATION
   \<and> active_states buttons_then_notification AND BREATH_SOURCE_BUTTONS \<noteq> 0
   \<and> issued buttons_lit buttons_then_notification
       \<noteq> [WriteInt BREATH_RED_OUTN 16, WriteStr BREATH_RED_LED ''3'']"
  by code_simp

text \<open>
  C1, amended. When a call of \<open>set_breath_light_locked\<close> records Notification, Battery or
  Attention as the winner, the writes of the call are: the four-write off sequence if the
  update has red byte 0 (nothing otherwise), followed by the two-write breathing sequence
  (channel 16, mode "3") if the Buttons bit is clear in \<open>active_states\<close>, and by the
  six-write buttons-on sequence if the Buttons bit is set.
\<close>

theorem breathing_winner_writes:
  assumes "last_state (snd (set_breath_light_locked fs src st s))
             \<in> {BREATH_SOURCE_NOTIFICATION, BREATH_SOURCE_BATTERY, BREATH_SOURCE_ATTENTION}"
  shows "issued s (snd (set_breath_light_locked fs src st s)) =
           (if 0 < red_byte st then []
            else [WriteInt BREATH_RED_OUTN 8, WriteStr BREATH_RED_LED ''2'',
                  WriteInt BREATH_RED_OUTN 16, WriteStr BREATH_RED_LED ''2''])
           @ (if active_states (snd (set_breath_light_locked fs src st s))
                   AND BREATH_SOURCE_BUTTONS = 0
              then [WriteInt BREATH_RED_OUTN 16, WriteStr BREATH_RED_LED ''3'']
              else [WriteInt BREATH_RED_OUTN 8, WriteInt BREATH_RED_GRADE 3,
                    WriteStr BREATH_RED_LED ''6'',
                    WriteInt BREATH_RED_OUTN 16, WriteInt BREATH_RED_GRADE 8,
                    WriteStr BREATH_RED_LED ''6''])"
proof -
  let ?s' = "snd (set_breath_light_locked fs src st s)"
  let ?a' = "active_states ?s'"
  from assms have w: "spec_winner ?a' \<in>
      {BREATH_SOURCE_NOTIFICATION, BREATH_SOURCE_BATTERY, BREATH_SOURCE_ATTENTION}"
    using sbll_last_state [of fs src st s] by simp
  have sel: "select_writes (last_state s) ?a' =
      (if ?a' AND BREATH_SOURCE_BUTTONS = 0 then breath_writes else buttons_on_writes)"
    using w by (rule select_writes_breathing)
  have "trace ?s' = trace s @ (if 0 < red_byte st then [] else off_writes)
                      @ select_writes (last_state s) ?a'"
    by (rule sbll_trace)
  then have "issued s ?s' = (if 0 < red_byte st then [] else off_writes)
                      @ select_writes (last_state s) ?a'"
    by (rule issued_append)
  then show ?thesis
    by (simp only: sel)
      (simp add: off_writes_def breath_writes_def buttons_on_writes_def lights_consts)
qed

text \<open>
  The amended C1 at the scenario of the claim: Buttons lit with 0xFF0000, then Notification
  lit with 0x010000. The second call issues the buttons-on sequence.
\<close>

theorem breathing_winner_writes_witness:
  "last_state buttons_then_notification
     \<in> {BREATH_SOURCE_NOTIFICATION, BREATH_SOURCE_BATTERY, BREATH_SOURCE_ATTENTION}
   \<and> issued buttons_lit buttons_then_notification =
       [WriteInt BREATH_RED_OUTN 8, WriteInt BREATH_RED_GRADE 3, WriteStr BREATH_RED_LED ''6'',
        WriteInt BREATH_RED_OUTN 16, WriteInt BREATH_RED_GRADE 8, WriteStr BREATH_RED_LED ''6'']"
proof -
  let ?st = "plain_state 0x010000"
  let ?s = "buttons_lit\<lparr>g_notification := ?st\<rparr>"
  have eq: "buttons_then_notification =
      snd (set_breath_light_locked fs_ok BREATH_SOURCE_NOTIFICATION ?st ?s)"
    by (simp add: buttons_then_notification_def set_light_snd)
  have w: "last_state buttons_then_notification = BREATH_SOURCE_NOTIFICATION"
    by code_simp
  have b: "active_states buttons_then_notification AND BREATH_SOURCE_BUTTONS \<noteq> 0"
    by code_simp
  have r: "0 < red_byte ?st"
    by (simp add: red_byte_def plain_state_def)
  have h: "last_state (snd (set_breath_light_locked fs_ok BREATH_SOURCE_NOTIFICATION ?st ?s))
      \<in> {BREATH_SOURCE_NOTIFICATION, BREATH_SOURCE_BATTERY, BREATH_SOURCE_ATTENTION}"
    using w by (simp add: eq)
  show ?thesis
    using breathing_winner_writes [OF h] w b r by (simp add: eq [symmetric])
qed

subsection \<open>C2: the status returned by an update\<close>

text \<open>
  C2, as stated, fails. With no file that can be opened, lighting Battery with colour
  0x010000 from the initial state makes two calls that both fail with status -2, and the
  entry point returns 0, not the first error.
\<close>

theorem write_error_not_returned:
  "fst (set_light_battery fs_absent (plain_state 0x010000) hal_init) = 0
   \<and> first_error fs_absent (length (trace hal_init))
        (issued hal_init (snd (set_light_battery fs_absent (plain_state 0x010000) hal_init)))
       = - 2"
  by code_simp

text \<open>
  C2, amended. Every update call on a breathing source (Notification, Battery, Buttons,
  Attention) returns success, 0, whether or not a hardware write fails: the statuses of
  the writes are discarded.
\<close>

theorem breath_update_returns_zero:
  "fst (set_light_notifications fs st s) = 0 \<and> fst (set_light_battery fs st s) = 0
   \<and> fst (set_light_buttons fs st s) = 0 \<and> fst (set_light_attention fs st s) = 0"
  by (simp add: set_light_buttons_def set_light_battery_def set_light_notifications_def
      set_light_attention_def Let_def)

subsection \<open>C3: the active bits follow the last update of each source\<close>

text \<open>
  C3. After every sequence of \<open>set_light\<close> calls from process start, the bit of each
  source in \<open>active_states\<close> is set exactly when the most recent call on that source gave a
  colour whose red byte (bits 16 to 23) is positive; the bit of a source that was never
  updated is clear.
\<close>

theorem active_bits_track_last_update:
  "(active_states (run fs hal_init calls) AND BREATH_SOURCE_NOTIFICATION \<noteq> 0)
      = (case last_update LIGHT_ID_NOTIFICATIONS calls of
           None \<Rightarrow> False | Some st \<Rightarrow> 0 < uint (color st) div 65536 mod 256)
   \<and> (active_states (run fs hal_init calls) AND BREATH_SOURCE_BATTERY \<noteq> 0)
      = (case last_update LIGHT_ID_BATTERY calls of
           None \<Rightarrow> False | Some st \<Rightarrow> 0 < uint (color st) div 65536 mod 256)
   \<and> (active_states (run fs hal_init calls) AND BREATH_SOURCE_BUTTONS \<noteq> 0)
      = (case last_update LIGHT_ID_BUTTONS calls of
           None \<Rightarrow> False | Some st \<Rightarrow> 0 < uint (color st) div 65536 mod 256)
   \<and> (active_states (run fs hal_init calls) AND BREATH_SOURCE_ATTENTION \<noteq> 0)
      = (case last_update LIGHT_ID_ATTENTION calls of
           None \<Rightarrow> False | Some st \<Rightarrow> 0 < uint (color st) div 65536 mod 256)"
proof -
  have z: "\<not> 0 < red_byte zero_light_state"
    by (simp add: red_byte_def zero_light_state_def)
  have g0: "g_notification hal_init = zero_light_state" "g_battery hal_init = zero_light_state"
    "g_buttons hal_init = zero_light_state" "g_attention hal_init = zero_light_state"
    by (simp_all add: hal_init_def)
  have "bits_track (run fs hal_init calls)"
    using bits_track_init by (rule bits_track_run)
  then show ?thesis
    unfolding bits_track_def g_run g0
    using z by (simp add: red_byte_def split: option.split)
qed

text \<open>
  C3 at a concrete sequence: Buttons lit, Notification lit, Buttons updated with a colour
  whose red byte is 0. Only the Notification bit is set afterwards.
\<close>

theorem active_bits_track_last_update_witness:
  "last_update LIGHT_ID_BUTTONS
      [(LIGHT_ID_BUTTONS, plain_state 0xFF0000), (LIGHT_ID_NOTIFICATIONS, plain_state 0x010000),
       (LIGHT_ID_BUTTONS, plain_state 0x00FFFF)] = Some (plain_state 0x00FFFF)
   \<and> last_update LIGHT_ID_BATTERY
      [(LIGHT_ID_BUTTONS, plain_state 0xFF0000), (LIGHT_ID_NOTIFICATIONS, plain_state 0x010000),
       (LIGHT_ID_BUTTONS, plain_state 0x00FFFF)] = None
   \<and> active_states (run fs_ok hal_init
      [(LIGHT_ID_BUTTONS, plain_state 0xFF0000), (LIGHT_ID_NOTIFICATIONS, plain_state 0x010000),
       (LIGHT_ID_BUTTONS, plain_state 0x00FFFF)]) = BREATH_SOURCE_NOTIFICATION"
proof -
  let ?calls = "[(LIGHT_ID_BUTTONS, plain_state 0xFF0000),
    (LIGHT_ID_NOTIFICATIONS, plain_state 0x010000), (LIGHT_ID_BUTTONS, plain_state 0x00FFFF)]"
  have a: "active_states (run fs_ok hal_init ?calls) = BREATH_SOURCE_NOTIFICATION"
    by code_simp
  have u: "last_update LIGHT_ID_BUTTONS ?calls = Some (plain_state 0x00FFFF)"
    "last_update LIGHT_ID_BATTERY ?calls = None"
    by simp_all
  from a u show ?thesis
    using active_bits_track_last_update [of fs_ok ?calls] by simp
qed

subsection \<open>C4: fixed priority\<close>

text \<open>
  C4. After every call of \<open>set_breath_light_locked\<close>, \<open>last_state\<close> is the first source
  in the order Notification, Battery, Buttons, Attention whose bit is set in
  \<open>active_states\<close> (none when no bit is set); in particular it is Notification whenever
  the Notification and Battery bits are both set, whatever the other bits, the source of
  the call and the state before.
\<close>

theorem priority_winner:
  "last_state (snd (set_breath_light_locked fs src st s))
     = spec_winner (active_states (snd (set_breath_light_locked fs src st s)))
   \<and> (active_states (snd (set_breath_light_locked fs src st s))
          AND BREATH_SOURCE_NOTIFICATION \<noteq> 0
        \<and> active_states (snd (set_breath_light_locked fs src st s))
          AND BREATH_SOURCE_BATTERY \<noteq> 0
      \<longrightarrow> last_state (snd (set_breath_light_locked fs src st s))
            = BREATH_SOURCE_NOTIFICATION)"
proof -
  have "last_state (snd (set_breath_light_locked fs src st s))
     = spec_winner (active_states (snd (set_breath_light_locked fs src st s)))"
    by (rule sbll_last_state)
  then show ?thesis by (simp add: spec_winner_notification)
qed

text \<open>
  C4 at a concrete input: Battery is lit first, Notification second; both bits are then set
  and Notification is the winner.
\<close>

theorem priority_winner_witness:
  "active_states (snd (set_light_notifications fs_ok (plain_state 0x010000) battery_lit))
      AND BREATH_SOURCE_NOTIFICATION \<noteq> 0
   \<and> active_states (snd (set_light_notifications fs_ok (plain_state 0x010000) battery_lit))
      AND BREATH_SOURCE_BATTERY \<noteq> 0
   \<and> last_state (snd (set_light_notifications fs_ok (plain_state 0x010000) battery_lit))
      = BREATH_SOURCE_NOTIFICATION"
proof -
  let ?s' = "snd (set_breath_light_locked fs_ok BREATH_SOURCE_NOTIFICATION (plain_state 0x010000)
                (battery_lit\<lparr>g_notification := plain_state 0x010000\<rparr>))"
  have a: "active_states ?s' AND BREATH_SOURCE_NOTIFICATION \<noteq> 0"
    by code_simp
  have b: "active_states ?s' AND BREATH_SOURCE_BATTERY \<noteq> 0"
    by code_simp
  have "active_states ?s' AND BREATH_SOURCE_NOTIFICATION \<noteq> 0
          \<and> active_states ?s' AND BREATH_SOURCE_BATTERY \<noteq> 0
        \<longrightarrow> last_state ?s' = BREATH_SOURCE_NOTIFICATION"
    using priority_winner [of fs_ok BREATH_SOURCE_NOTIFICATION "plain_state 0x010000"
                 "battery_lit\<lparr>g_notification := plain_state 0x010000\<rparr>"]
    by (rule conjunct2)
  with a b have "last_state ?s' = BREATH_SOURCE_NOTIFICATION" by blast
  with a b show ?thesis by (simp only: set_light_snd) simp
qed

subsection \<open>C5: the Buttons short-circuit\<close>

text \<open>
  C5. When \<open>last_state\<close> is already Buttons and a call again records Buttons as the winner,
  the priority resolution adds no write: the writes of the call are none when the update
  has a positive red byte (only the off sequence of the clearing step otherwise). And when
  \<open>set_light_buttons\<close> is called twice in a row with the same state of positive red byte,
  Buttons being the winner, the second call issues no write and Buttons remains the
  winner; the first call issues the buttons-on sequence, unless \<open>last_state\<close> was Buttons
  already before it.
\<close>

theorem buttons_idempotent:
  "(last_state s = BREATH_SOURCE_BUTTONS
      \<and> last_state (snd (set_breath_light_locked fs src st' s)) = BREATH_SOURCE_BUTTONS
    \<longrightarrow> issued s (snd (set_breath_light_locked fs src st' s)) =
          (if 0 < red_byte st' then []
           else [WriteInt BREATH_RED_OUTN 8, WriteStr BREATH_RED_LED ''2'',
                 WriteInt BREATH_RED_OUTN 16, WriteStr BREATH_RED_LED ''2'']))
   \<and> (0 < red_byte st
        \<and> last_state (snd (set_light_buttons fs st s)) = BREATH_SOURCE_BUTTONS
      \<longrightarrow> issued (snd (set_light_buttons fs st s))
             (snd (set_light_buttons fs st (snd (set_light_buttons fs st s)))) = []
          \<and> last_state (snd (set_light_buttons fs st (snd (set_light_buttons fs st s))))
              = BREATH_SOURCE_BUTTONS
          \<and> issued s (snd (set_light_buttons fs st s)) =
              (if last_state s = BREATH_SOURCE_BUTTONS then []
               else [WriteInt BREATH_RED_OUTN 8, WriteInt BREATH_RED_GRADE 3,
                     WriteStr BREATH_RED_LED ''6'',
                     WriteInt BREATH_RED_OUTN 16, WriteInt BREATH_RED_GRADE 8,
                     WriteStr BREATH_RED_LED ''6'']))"
proof (intro conjI impI)
  assume h: "last_state s = BREATH_SOURCE_BUTTONS
      \<and> last_state (snd (set_breath_light_locked fs src st' s)) = BREATH_SOURCE_BUTTONS"
  let ?s' = "snd (set_breath_light_locked fs src st' s)"
  from h have w: "spec_winner (active_states ?s') = BREATH_SOURCE_BUTTONS"
    using sbll_last_state [of fs src st' s] by simp
  have "trace ?s' = trace s @ (if 0 < red_byte st' then [] else off_writes)
          @ select_writes (last_state s) (active_states ?s')"
    by (rule sbll_trace)
  then have "issued s ?s' = (if 0 < red_byte st' then [] else off_writes)
          @ select_writes (last_state s) (active_states ?s')"
    by (rule issued_append)
  with h show "issued s ?s' =
          (if 0 < red_byte st' then []
           else [WriteInt BREATH_RED_OUTN 8, WriteStr BREATH_RED_LED ''2'',
                 WriteInt BREATH_RED_OUTN 16, WriteStr BREATH_RED_LED ''2''])"
    by (simp add: select_writes_buttons [OF w] off_writes_def lights_consts)
next
  assume h: "0 < red_byte st
        \<and> last_state (snd (set_light_buttons fs st s)) = BREATH_SOURCE_BUTTONS"
  let ?s0 = "s\<lparr>g_buttons := st\<rparr>"
  let ?s1 = "snd (set_breath_light_locked fs BREATH_SOURCE_BUTTONS st ?s0)"
  let ?s2 = "snd (set_breath_light_locked fs BREATH_SOURCE_BUTTONS st (?s1\<lparr>g_buttons := st\<rparr>))"
  from h have r: "0 < red_byte st" and l1: "last_state ?s1 = BREATH_SOURCE_BUTTONS"
    by (simp_all add: set_light_snd)
  have a1: "active_states ?s1 = active_states s OR BREATH_SOURCE_BUTTONS"
    using r by (simp add: sbll_active)
  have a2: "active_states ?s2 = active_states ?s1"
    using r by (simp add: sbll_active a1 or.assoc)
  have w1: "spec_winner (active_states ?s1) = BREATH_SOURCE_BUTTONS"
    using l1 sbll_last_state [of fs BREATH_SOURCE_BUTTONS st ?s0] by simp
  have t1: "trace ?s1 = trace ?s0 @ (if 0 < red_byte st then [] else off_writes)
          @ select_writes (last_state ?s0) (active_states ?s1)"
    by (rule sbll_trace)
  have t2: "trace ?s2 = trace (?s1\<lparr>g_buttons := st\<rparr>)
          @ (if 0 < red_byte st then [] else off_writes)
          @ select_writes (last_state (?s1\<lparr>g_buttons := st\<rparr>)) (active_states ?s2)"
    by (rule sbll_trace)
  have i1: "issued s ?s1 =
      (if last_state s = BREATH_SOURCE_BUTTONS then [] else buttons_on_writes)"
    using t1 r by (simp add: select_writes_buttons [OF w1] issued_def)
  have i2: "issued ?s1 ?s2 = []"
    using t2 r l1 by (simp add: a2 select_writes_buttons [OF w1] issued_def)
  have l2: "last_state ?s2 = BREATH_SOURCE_BUTTONS"
    using sbll_last_state [of fs BREATH_SOURCE_BUTTONS st "?s1\<lparr>g_buttons := st\<rparr>"] a2 w1
    by simp
  show "issued (snd (set_light_buttons fs st s))
             (snd (set_light_buttons fs st (snd (set_light_buttons fs st s)))) = []"
    using i2 by (simp add: set_light_snd)
  show "last_state (snd (set_light_buttons fs st (snd (set_light_buttons fs st s))))
              = BREATH_SOURCE_BUTTONS"
    using l2 by (simp add: set_light_snd)
  show "issued s (snd (set_light_buttons fs st s)) =
              (if last_state s = BREATH_SOURCE_BUTTONS then []
               else [WriteInt BREATH_RED_OUTN 8, WriteInt BREATH_RED_GRADE 3,
                     WriteStr BREATH_RED_LED ''6'',
                     WriteInt BREATH_RED_OUTN 16, WriteInt BREATH_RED_GRADE 8,
                     WriteStr BREATH_RED_LED ''6''])"
    using i1 by (simp add: set_light_snd buttons_on_writes_def lights_consts)
qed

text \<open>
  C5 at a concrete input: Buttons lit with colour 0xFF0000 twice in a row from process
  start. The first call issues the six writes, the second none.
\<close>

theorem buttons_idempotent_witness:
  "0 < red_byte (plain_state 0xFF0000)
   \<and> last_state hal_init \<noteq> BREATH_SOURCE_BUTTONS
   \<and> last_state buttons_lit = BREATH_SOURCE_BUTTONS
   \<and> issued hal_init buttons_lit =
        [WriteInt BREATH_RED_OUTN 8, WriteInt BREATH_RED_GRADE 3, WriteStr BREATH_RED_LED ''6'',
         WriteInt BREATH_RED_OUTN 16, WriteInt BREATH_RED_GRADE 8, WriteStr BREATH_RED_LED ''6'']
   \<and> issued buttons_lit (snd (set_light_buttons fs_ok (plain_state 0xFF0000) buttons_lit)) = []
   \<and> last_state (snd (set_light_buttons fs_ok (plain_state 0xFF0000) buttons_lit))
        = BREATH_SOURCE_BUTTONS"
proof -
  let ?st = "plain_state 0xFF0000"
  have r: "0 < red_byte ?st" by (simp add: red_byte_def plain_state_def)
  have n: "last_state hal_init \<noteq> BREATH_SOURCE_BUTTONS"
    by (simp add: hal_init_def lights_consts)
  have l: "last_state (snd (set_light_buttons fs_ok ?st hal_init)) = BREATH_SOURCE_BUTTONS"
    by code_simp
  have "0 < red_byte ?st
        \<and> last_state (snd (set_light_buttons fs_ok ?st hal_init)) = BREATH_SOURCE_BUTTONS
      \<longrightarrow> issued (snd (set_light_buttons fs_ok ?st hal_init))
             (snd (set_light_buttons fs_ok ?st (snd (set_light_buttons fs_ok ?st hal_init))))
            = []
          \<and> last_state
              (snd (set_light_buttons fs_ok ?st (snd (set_light_buttons fs_ok ?st hal_init))))
              = BREATH_SOURCE_BUTTONS
          \<and> issued hal_init (snd (set_light_buttons fs_ok ?st hal_init)) =
              (if last_state hal_init = BREATH_SOURCE_BUTTONS then []
               else [WriteInt BREATH_RED_OUTN 8, WriteInt BREATH_RED_GRADE 3,
                     WriteStr BREATH_RED_LED ''6'',
                     WriteInt BREATH_RED_OUTN 16, WriteInt BREATH_RED_GRADE 8,
                     WriteStr BREATH_RED_LED ''6''])"
    using buttons_idempotent [of hal_init fs_ok BREATH_SOURCE_BUTTONS ?st ?st]
    by (rule conjunct2)
  with r n l show ?thesis by (simp add: buttons_lit_def)
qed

subsection \<open>C6: turning the last source off\<close>

text \<open>
  C6. When an update has red byte 0 and leaves \<open>active_states\<close> empty, the call issues
  exactly the off sequence (channel 8, mode "2", channel 16, mode "2"), sets
  \<open>last_state\<close> to none, and writes nothing else.
\<close>

theorem sole_source_off:
  assumes "red_byte st = 0" and "active_states s AND NOT src = 0"
  shows "issued s (snd (set_breath_light_locked fs src st s)) =
           [WriteInt BREATH_RED_OUTN 8, WriteStr BREATH_RED_LED ''2'',
            WriteInt BREATH_RED_OUTN 16, WriteStr BREATH_RED_LED ''2'']
         \<and> last_state (snd (set_breath_light_locked fs src st s)) = BREATH_SOURCE_NONE
         \<and> active_states (snd (set_breath_light_locked fs src st s)) = 0"
proof -
  let ?s' = "snd (set_breath_light_locked fs src st s)"
  have a: "active_states ?s' = 0" using assms by (simp add: sbll_active)
  then have l: "last_state ?s' = BREATH_SOURCE_NONE" by (simp add: sbll_last_state)
  have "trace ?s' = trace s @ off_writes"
    using assms(1) a by (simp add: sbll_trace)
  then have "issued s ?s' = off_writes" by (rule issued_append)
  with a l show ?thesis by (simp add: off_writes_def lights_consts)
qed

text \<open>
  C6 at the scenario of the specification: Battery lit with 0x010000 from the initial state
  (channel 16, mode "3"), then Battery updated with colour 0.
\<close>

theorem sole_source_off_witness:
  "red_byte (plain_state 0) = 0
   \<and> active_states battery_lit = BREATH_SOURCE_BATTERY
   \<and> issued hal_init battery_lit = [WriteInt BREATH_RED_OUTN 16, WriteStr BREATH_RED_LED ''3'']
   \<and> issued battery_lit (snd (set_light_battery fs_ok (plain_state 0) battery_lit)) =
           [WriteInt BREATH_RED_OUTN 8, WriteStr BREATH_RED_LED ''2'',
            WriteInt BREATH_RED_OUTN 16, WriteStr BREATH_RED_LED ''2'']
   \<and> last_state (snd (set_light_battery fs_ok (plain_state 0) battery_lit)) = BREATH_SOURCE_NONE"
proof -
  have r: "red_byte (plain_state 0) = 0" by (simp add: red_byte_def plain_state_def)
  have a: "active_states battery_lit = BREATH_SOURCE_BATTERY" by code_simp
  have i: "issued hal_init battery_lit
             = [WriteInt BREATH_RED_OUTN 16, WriteStr BREATH_RED_LED ''3'']"
    by code_simp
  have e: "active_states (battery_lit\<lparr>g_battery := plain_state 0\<rparr>)
             AND NOT BREATH_SOURCE_BATTERY = 0"
    using a by simp
  from sole_source_off [OF r e, of fs_ok] r a i show ?thesis
    by (simp add: set_light_snd)
qed

subsection \<open>C7: logging of open failures\<close>

text \<open>
  C7, as stated, fails. With no file that can be opened, lighting Buttons from process start
  calls \<open>write_int\<close> on the channel selector and then on the grade parameter. The second
  call (index 1) is the first failure to open the grade parameter, and it is not logged:
  the log holds the channel selector's message and the mode selector's, nothing for the
  grade parameter.
\<close>

theorem second_control_point_failure_unlogged:
  "fs_absent 1 BREATH_RED_GRADE = OpenFail 2
   \<and> trace (snd (set_light_buttons fs_absent (plain_state 0xFF0000) hal_init)) ! 1
       = WriteInt BREATH_RED_GRADE 3
   \<and> logs (snd (set_light_buttons fs_absent (plain_state 0xFF0000) hal_init))
       = ['' Button led on'',
          ''write_int failed to open /sys/class/leds/nubia_led/outn'' @ [CHR 0x0A],
          ''write_str failed to open /sys/class/leds/nubia_led/blink_mode'' @ [CHR 0x0A]]"
  by code_simp

text \<open>
  C7, amended. A failure to open a control point is logged only the first time it occurs in
  each of the two write primitives: \<open>write_int\<close> and \<open>write_str\<close> each keep one flag for
  all the control points they write, clear at process start, set at the first failed open
  and never cleared. After every sequence of \<open>set_light\<close> calls from process start, the
  log holds exactly one \<open>write_int\<close> line if some \<open>write_int\<close> call failed to open its file,
  naming the path of the first such call, and none otherwise; likewise, and independently,
  for \<open>write_str\<close>. For a single call from any state: it logs exactly when its open fails
  and its own flag is clear, sets its own flag when its open fails, and leaves the other
  primitive's flag alone.
\<close>

theorem open_failure_logged_once_per_writer:
  "filter (has_prefix write_int_prefix) (logs (run fs hal_init calls)) =
     (case first_open_failure is_write_int fs 0 (trace (run fs hal_init calls)) of
        None \<Rightarrow> []
      | Some q \<Rightarrow> [''write_int failed to open '' @ q @ [CHR 0x0A]])
   \<and> filter (has_prefix write_str_prefix) (logs (run fs hal_init calls)) =
     (case first_open_failure is_write_str fs 0 (trace (run fs hal_init calls)) of
        None \<Rightarrow> []
      | Some q \<Rightarrow> [''write_str failed to open '' @ q @ [CHR 0x0A]])
   \<and> write_int_warned (run fs hal_init calls) =
       (first_open_failure is_write_int fs 0 (trace (run fs hal_init calls)) \<noteq> None)
   \<and> write_str_warned (run fs hal_init calls) =
       (first_open_failure is_write_str fs 0 (trace (run fs hal_init calls)) \<noteq> None)
   \<and> logs (snd (write_int fs p v s)) =
     logs s @ (if open_fails (fs (length (trace s)) p) \<and> \<not> write_int_warned s
               then [''write_int failed to open '' @ p @ [CHR 0x0A]] else [])
   \<and> write_int_warned (snd (write_int fs p v s)) =
       (write_int_warned s \<or> open_fails (fs (length (trace s)) p))
   \<and> write_str_warned (snd (write_int fs p v s)) = write_str_warned s
   \<and> logs (snd (write_str fs p w s)) =
     logs s @ (if open_fails (fs (length (trace s)) p) \<and> \<not> write_str_warned s
               then [''write_str failed to open '' @ p @ [CHR 0x0A]] else [])
   \<and> write_str_warned (snd (write_str fs p w s)) =
       (write_str_warned s \<or> open_fails (fs (length (trace s)) p))
   \<and> write_int_warned (snd (write_str fs p w s)) = write_int_warned s"
proof -
  have "warned_once fs (run fs hal_init calls)"
    using warned_once_init by (rule warned_once_run)
  then have r: "filter (has_prefix write_int_prefix) (logs (run fs hal_init calls)) =
     (case first_open_failure is_write_int fs 0 (trace (run fs hal_init calls)) of
        None \<Rightarrow> []
      | Some q \<Rightarrow> [''write_int failed to open '' @ q @ [CHR 0x0A]])
   \<and> filter (has_prefix write_str_prefix) (logs (run fs hal_init calls)) =
     (case first_open_failure is_write_str fs 0 (trace (run fs hal_init calls)) of
        None \<Rightarrow> []
      | Some q \<Rightarrow> [''write_str failed to open '' @ q @ [CHR 0x0A]])
   \<and> write_int_warned (run fs hal_init calls) =
       (first_open_failure is_write_int fs 0 (trace (run fs hal_init calls)) \<noteq> None)
   \<and> write_str_warned (run fs hal_init calls) =
       (first_open_failure is_write_str fs 0 (trace (run fs hal_init calls)) \<noteq> None)"
    unfolding warned_once_def write_int_prefix_def write_str_prefix_def
    by (simp add: write_int_prefix_def [symmetric] write_str_prefix_def [symmetric])
  have c: "logs (snd (write_int fs p v s)) =
     logs s @ (if open_fails (fs (length (trace s)) p) \<and> \<not> write_int_warned s
               then [''write_int failed to open '' @ p @ [CHR 0x0A]] else [])
   \<and> write_int_warned (snd (write_int fs p v s)) =
       (write_int_warned s \<or> open_fails (fs (length (trace s)) p))
   \<and> write_str_warned (snd (write_int fs p v s)) = write_str_warned s
   \<and> logs (snd (write_str fs p w s)) =
     logs s @ (if open_fails (fs (length (trace s)) p) \<and> \<not> write_str_warned s
               then [''write_str failed to open '' @ p @ [CHR 0x0A]] else [])
   \<and> write_str_warned (snd (write_str fs p w s)) =
       (write_str_warned s \<or> open_fails (fs (length (trace s)) p))
   \<and> write_int_warned (snd (write_str fs p w s)) = write_int_warned s"
    by (simp add: write_int_logs write_str_logs write_int_warned_after write_str_warned_after)
  from r c show ?thesis by blast
qed

text \<open>
  The amended C7 at a concrete input, with no file that can be opened: Buttons is lit and
  then the backlight is set. Seven calls fail to open four different files; the log holds
  one \<open>write_int\<close> line, for the channel selector, and one \<open>write_str\<close> line, for the mode
  selector. The grade parameter and the backlight file, opened later by \<open>write_int\<close>, are
  never named.
\<close>

theorem open_failure_logged_once_per_writer_witness:
  "trace buttons_backlight_absent =
     [WriteInt BREATH_RED_OUTN 8, WriteInt BREATH_RED_GRADE 3, WriteStr BREATH_RED_LED ''6'',
      WriteInt BREATH_RED_OUTN 16, WriteInt BREATH_RED_GRADE 8, WriteStr BREATH_RED_LED ''6'',
      WriteInt LCD_FILE 32]
   \<and> first_open_failure is_write_int fs_absent 0 (trace buttons_backlight_absent)
       = Some BREATH_RED_OUTN
   \<and> first_open_failure is_write_str fs_absent 0 (trace buttons_backlight_absent)
       = Some BREATH_RED_LED
   \<and> filter (has_prefix write_int_prefix) (logs buttons_backlight_absent)
       = [''write_int failed to open /sys/class/leds/nubia_led/outn'' @ [CHR 0x0A]]
   \<and> filter (has_prefix write_str_prefix) (logs buttons_backlight_absent)
       = [''write_str failed to open /sys/class/leds/nubia_led/blink_mode'' @ [CHR 0x0A]]
   \<and> logs (snd (write_int fs_absent BREATH_RED_OUTN 8 hal_init))
     = [''write_int failed to open /sys/class/leds/nubia_led/outn'' @ [CHR 0x0A]]
   \<and> logs (snd (write_int fs_absent BREATH_RED_GRADE 3
               (snd (write_int fs_absent BREATH_RED_OUTN 8 hal_init))))
     = [''write_int failed to open /sys/class/leds/nubia_led/outn'' @ [CHR 0x0A]]
   \<and> logs (snd (write_str fs_absent BREATH_RED_LED ''6''
               (snd (write_int fs_absent BREATH_RED_OUTN 8 hal_init))))
     = [''write_int failed to open /sys/class/leds/nubia_led/outn'' @ [CHR 0x0A],
        ''write_str failed to open /sys/class/leds/nubia_led/blink_mode'' @ [CHR 0x0A]]"
proof -
  let ?calls = "[(LIGHT_ID_BUTTONS, plain_state 0xFF0000),
                 (LIGHT_ID_BACKLIGHT, plain_state 0x102031)]"
  let ?s1 = "snd (write_int fs_absent BREATH_RED_OUTN 8 hal_init)"
  have t: "trace buttons_backlight_absent =
     [WriteInt BREATH_RED_OUTN 8, WriteInt BREATH_RED_GRADE 3, WriteStr BREATH_RED_LED ''6'',
      WriteInt BREATH_RED_OUTN 16, WriteInt BREATH_RED_GRADE 8, WriteStr BREATH_RED_LED ''6'',
      WriteInt LCD_FILE 32]"
    by code_simp
  have fi: "first_open_failure is_write_int fs_absent 0 (trace buttons_backlight_absent)
       = Some BREATH_RED_OUTN"
    unfolding t by (simp add: fs_absent_def open_fails_def)
  have fst: "first_open_failure is_write_str fs_absent 0 (trace buttons_backlight_absent)
       = Some BREATH_RED_LED"
    unfolding t by (simp add: fs_absent_def open_fails_def)
  note run_level = open_failure_logged_once_per_writer [where fs = fs_absent and calls = ?calls and s = hal_init
      and p = BREATH_RED_OUTN and v = 8 and w = "''6''"]
  have li: "filter (has_prefix write_int_prefix) (logs buttons_backlight_absent)
       = [''write_int failed to open '' @ BREATH_RED_OUTN @ [CHR 0x0A]]"
    using run_level [THEN conjunct1] fi by (simp add: buttons_backlight_absent_def)
  have ls: "filter (has_prefix write_str_prefix) (logs buttons_backlight_absent)
       = [''write_str failed to open '' @ BREATH_RED_LED @ [CHR 0x0A]]"
    using run_level [THEN conjunct2, THEN conjunct1] fst
    by (simp add: buttons_backlight_absent_def)
  have w0: "\<not> write_int_warned hal_init" "\<not> write_str_warned hal_init" "logs hal_init = []"
    by (simp_all add: hal_init_def)
  have f: "\<And>n p. open_fails (fs_absent n p)"
    by (simp add: fs_absent_def open_fails_def)
  have a: "logs ?s1 = [''write_int failed to open '' @ BREATH_RED_OUTN @ [CHR 0x0A]]"
    and b: "write_int_warned ?s1" and c: "\<not> write_str_warned ?s1"
    using write_int_logs [of fs_absent BREATH_RED_OUTN 8 hal_init]
      write_int_warned_after [of fs_absent BREATH_RED_OUTN 8 hal_init] w0 f
    by simp_all
  have d: "logs (snd (write_int fs_absent BREATH_RED_GRADE 3 ?s1)) = logs ?s1"
    using write_int_logs [of fs_absent BREATH_RED_GRADE 3 ?s1] b by simp
  have e: "logs (snd (write_str fs_absent BREATH_RED_LED ''6'' ?s1)) =
             logs ?s1 @ [''write_str failed to open '' @ BREATH_RED_LED @ [CHR 0x0A]]"
    using write_str_logs [of fs_absent BREATH_RED_LED "''6''" ?s1] c f by simp
  from t fi fst li ls a d e show ?thesis
    by (simp add: BREATH_RED_OUTN_def BREATH_RED_LED_def)
qed

subsection \<open>C8: the defensive branch\<close>

text \<open>
  C8. A call of \<open>set_breath_light_locked\<close> for one of the four known sources, on a state
  whose \<open>active_states\<close> has only known bits, does not take the branch of line 206 (the
  count of its log message is unchanged) and leaves only known bits set; and no sequence
  of \<open>set_light\<close> calls from process start ever takes it.
\<close>

theorem unknown_state_unreachable:
  "(src \<in> {BREATH_SOURCE_NOTIFICATION, BREATH_SOURCE_BATTERY, BREATH_SOURCE_BUTTONS,
            BREATH_SOURCE_ATTENTION}
      \<and> known_bits (active_states s)
    \<longrightarrow> unknown_count (snd (set_breath_light_locked fs src st s)) = unknown_count s
        \<and> known_bits (active_states (snd (set_breath_light_locked fs src st s))))
   \<and> known_bits (active_states (run fs hal_init calls))
   \<and> unknown_count (run fs hal_init calls) = 0"
proof -
  have "quiet_known (run fs hal_init calls)"
    using quiet_known_init by (rule quiet_known_run)
  then show ?thesis
    by (simp add: quiet_known_def known_only_sbll unknown_not_taken)
qed

text \<open>
  C8 at a concrete input: Notification lit after Buttons. The state before has only known
  bits and the call logs no "Unknown state".
\<close>

theorem unknown_state_unreachable_witness:
  "known_bits (active_states buttons_lit)
   \<and> unknown_count buttons_then_notification = unknown_count buttons_lit
   \<and> unknown_count buttons_then_notification = 0"
proof -
  let ?st = "plain_state 0x010000"
  have k: "known_bits (active_states (buttons_lit\<lparr>g_notification := ?st\<rparr>))"
    by code_simp
  have m: "BREATH_SOURCE_NOTIFICATION \<in> {BREATH_SOURCE_NOTIFICATION, BREATH_SOURCE_BATTERY,
      BREATH_SOURCE_BUTTONS, BREATH_SOURCE_ATTENTION}"
    by simp
  have z: "unknown_count buttons_lit = 0"
    by code_simp
  from unknown_state_unreachable
    [of BREATH_SOURCE_NOTIFICATION "buttons_lit\<lparr>g_notification := ?st\<rparr>" fs_ok ?st] k m
  have "unknown_count (snd (set_breath_light_locked fs_ok BREATH_SOURCE_NOTIFICATION ?st
           (buttons_lit\<lparr>g_notification := ?st\<rparr>))) = unknown_count buttons_lit"
    by simp
  with k z show ?thesis
    by (simp add: buttons_then_notification_def set_light_snd)
qed

subsection \<open>C9: the backlight\<close>

text \<open>
  C9. \<open>set_light_backlight\<close> makes exactly one call, \<open>write_int\<close> on the backlight file,
  with the truncated average of the red, green and blue bytes of the colour (the top byte
  is ignored); the value lies between 0 and 255; the call returns the status of that write
  and changes neither \<open>active_states\<close>, \<open>last_state\<close> nor the stored light states.
\<close>

theorem backlight_average:
  "issued s (snd (set_light_backlight fs st s)) =
     [WriteInt LCD_FILE
        ((uint (color st) div 65536 mod 256 + uint (color st) div 256 mod 256
           + uint (color st) mod 256) div 3)]
   \<and> 0 \<le> (uint (color st) div 65536 mod 256 + uint (color st) div 256 mod 256
           + uint (color st) mod 256) div 3
   \<and> (uint (color st) div 65536 mod 256 + uint (color st) div 256 mod 256
           + uint (color st) mod 256) div 3 \<le> 255
   \<and> fst (set_light_backlight fs st s) = sink_result (fs (length (trace s)) LCD_FILE)
   \<and> active_states (snd (set_light_backlight fs st s)) = active_states s
   \<and> last_state (snd (set_light_backlight fs st s)) = last_state s
   \<and> g_notification (snd (set_light_backlight fs st s)) = g_notification s
   \<and> g_battery (snd (set_light_backlight fs st s)) = g_battery s
   \<and> g_buttons (snd (set_light_backlight fs st s)) = g_buttons s
   \<and> g_attention (snd (set_light_backlight fs st s)) = g_attention s"
proof -
  define v where "v = (uint (color st) div 65536 mod 256 + uint (color st) div 256 mod 256
           + uint (color st) mod 256) div 3"
  have e: "rgb_to_brightness st = v"
    unfolding v_def by (rule rgb_to_brightness_eq)
  have i: "issued s (snd (set_light_backlight fs st s)) = [WriteInt LCD_FILE v]"
    by (simp add: set_light_backlight_def Let_def split_beta e)
  have r: "fst (set_light_backlight fs st s) = sink_result (fs (length (trace s)) LCD_FILE)"
    by (simp add: set_light_backlight_def Let_def split_beta write_int_result)
  have b: "0 \<le> v \<and> v \<le> 255"
    unfolding v_def by (rule avg3_bound) (rule byte_bounds)+
  have "issued s (snd (set_light_backlight fs st s)) = [WriteInt LCD_FILE v]
   \<and> 0 \<le> v \<and> v \<le> 255
   \<and> fst (set_light_backlight fs st s) = sink_result (fs (length (trace s)) LCD_FILE)
   \<and> active_states (snd (set_light_backlight fs st s)) = active_states s
   \<and> last_state (snd (set_light_backlight fs st s)) = last_state s
   \<and> g_notification (snd (set_light_backlight fs st s)) = g_notification s
   \<and> g_battery (snd (set_light_backlight fs st s)) = g_battery s
   \<and> g_buttons (snd (set_light_backlight fs st s)) = g_buttons s
   \<and> g_attention (snd (set_light_backlight fs st s)) = g_attention s"
    using i r b by simp
  then show ?thesis unfolding v_def .
qed

text \<open>
  C9 at a concrete input: colour 0xFF102031 has bytes 16, 32 and 49, whose sum 97 gives
  the truncated average 32; the top byte 0xFF plays no part.
\<close>

theorem backlight_average_witness:
  "issued hal_init (snd (set_light_backlight fs_ok (plain_state 0xFF102031) hal_init))
     = [WriteInt LCD_FILE 32]"
  using backlight_average [of hal_init fs_ok "plain_state 0xFF102031"]
  by (simp add: plain_state_def)

subsection \<open>C10: the recorded winner is consistent with the active set\<close>

text \<open>
  C10. At process start, after every call of \<open>set_breath_light_locked\<close> (from any state),
  and after every sequence of \<open>set_light\<close> calls from process start: if \<open>active_states\<close>
  is empty then \<open>last_state\<close> is none, and \<open>last_state\<close> is none or one of the four
  sources, with its bit set in \<open>active_states\<close>.
\<close>

theorem last_applied_consistent:
  "applied_consistent hal_init
   \<and> applied_consistent (snd (set_breath_light_locked fs src st s))
   \<and> applied_consistent (run fs hal_init calls)"
proof -
  have "winner_recorded hal_init" by (rule winner_recorded_init)
  moreover have "winner_recorded (snd (set_breath_light_locked fs src st s))"
    by (simp add: winner_recorded_def sbll_last_state [symmetric])
  moreover have "winner_recorded (run fs hal_init calls)"
    using winner_recorded_init by (rule winner_recorded_run)
  ultimately show ?thesis by (simp add: winner_recorded_consistent)
qed

text \<open>
  C10 at two concrete inputs: Battery lit and then turned off (the set is empty and
  \<open>last_state\<close> is none), and Notification lit after Buttons (\<open>last_state\<close> is
  Notification, whose bit is set).
\<close>

theorem last_applied_consistent_witness:
  "active_states (snd (set_light_battery fs_ok (plain_state 0) battery_lit)) = 0
   \<and> last_state (snd (set_light_battery fs_ok (plain_state 0) battery_lit)) = BREATH_SOURCE_NONE
   \<and> last_state buttons_then_notification = BREATH_SOURCE_NOTIFICATION
   \<and> active_states buttons_then_notification AND last_state buttons_then_notification \<noteq> 0"
proof -
  let ?off = "snd (set_breath_light_locked fs_ok BREATH_SOURCE_BATTERY (plain_state 0)
                 (battery_lit\<lparr>g_battery := plain_state 0\<rparr>))"
  let ?bn = "snd (set_breath_light_locked fs_ok BREATH_SOURCE_NOTIFICATION (plain_state 0x010000)
                 (buttons_lit\<lparr>g_notification := plain_state 0x010000\<rparr>))"
  have e: "active_states ?off = 0" by code_simp
  have n: "last_state ?bn = BREATH_SOURCE_NOTIFICATION" by code_simp
  have "applied_consistent ?off"
    using last_applied_consistent [of fs_ok BREATH_SOURCE_BATTERY "plain_state 0"
        "battery_lit\<lparr>g_battery := plain_state 0\<rparr>"] by simp
  with e have 1: "last_state ?off = BREATH_SOURCE_NONE"
    by (simp add: applied_consistent_def)
  have "applied_consistent ?bn"
    using last_applied_consistent [of fs_ok BREATH_SOURCE_NOTIFICATION "plain_state 0x010000"
        "buttons_lit\<lparr>g_notification := plain_state 0x010000\<rparr>"] by simp
  with n have 2: "active_states ?bn AND last_state ?bn \<noteq> 0"
    by (simp add: applied_consistent_def lights_consts)
  from e 1 n 2 show ?thesis
    by (simp add: buttons_then_notification_def set_light_snd)
qed

end
